theory Spec2Isabelle
  imports Complex_Main
begin

section \<open>Product catalog resolvers (index.js)\<close>

text \<open>
  The program is one file, \<^verbatim>\<open>index.js\<close>: two Mongoose models, the GraphQL resolvers
  \<^verbatim>\<open>me\<close>, \<^verbatim>\<open>products\<close>, \<^verbatim>\<open>register\<close>, \<^verbatim>\<open>login\<close>, \<^verbatim>\<open>addProduct\<close>, \<^verbatim>\<open>updateProduct\<close>,
  \<^verbatim>\<open>deleteProduct\<close>, and the function that builds the request context from the
  \<^verbatim>\<open>Authorization\<close> header.

  The resolvers are embedded as functions on an explicit store. The libraries the file
  calls are not part of it: \<^verbatim>\<open>bcrypt.hash\<close>, \<^verbatim>\<open>bcrypt.compare\<close>, \<^verbatim>\<open>jwt.sign\<close>, \<^verbatim>\<open>jwt.verify\<close>,
  the store's \<^verbatim>\<open>sort\<close> and Mongoose's cast of an id to an ObjectId are parameters of the
  resolvers that call them, and a theorem that needs something of a library says so in
  a premise.
\<close>

subsection \<open>Data model\<close>

text \<open>
  An ObjectId is a 12-byte value, here a natural number. A GraphQL \<^verbatim>\<open>ID\<close> argument is a
  string: Mongoose casts it to an ObjectId when the query runs, and throws a CastError
  when it cannot.
\<close>

type_synonym ObjectId = nat

type_synonym GraphQLID = string

text \<open>
  \<^verbatim>\<open>mongoose.model("Product", ...)\<close>, lines 27-34. No path is required by the schema, so
  every path may be null or missing; both are \<open>None\<close>. A \<^verbatim>\<open>Number\<close> that comes through
  \<^verbatim>\<open>GraphQLFloat\<close> is finite, so its order is the order of the reals and it is falsy
  exactly when it is zero.
\<close>

record Product =
  p_id :: ObjectId
  p_name :: "string option"
  p_description :: "string option"
  p_price :: "real option"
  p_category :: "string option"
  p_brand :: "string option"
  p_rating :: "real option"

text \<open>\<^verbatim>\<open>mongoose.model("User", ...)\<close>, lines 36-40.\<close>

record User =
  u_id :: ObjectId
  u_username :: string
  u_password :: string
  u_isAdmin :: bool

text \<open>The two collections, in natural (insertion) order.\<close>

record Store =
  Product_docs :: "Product list"
  User_docs :: "User list"

text \<open>
  What a resolver throws. \<open>Error\<close> is a thrown \<^verbatim>\<open>new Error(message)\<close>: the resolvers throw
  five messages; in the words of the specification \<^verbatim>\<open>"Unauthorized"\<close> is Unauthorized,
  \<^verbatim>\<open>"Username already exists"\<close> is Conflict, \<^verbatim>\<open>"User not found"\<close> and \<^verbatim>\<open>"Product not found"\<close>
  are NotFound and \<^verbatim>\<open>"Invalid credentials"\<close> is InvalidCredentials. \<open>CastError\<close> is what
  Mongoose throws for an id it cannot cast to an ObjectId, with the value that failed;
  the resolvers do not catch it.
\<close>

datatype error = Error string | CastError string

text \<open>
  The payload \<^verbatim>\<open>login\<close> signs is \<^verbatim>\<open>{ id, isAdmin }\<close>; what \<^verbatim>\<open>jwt.verify\<close> returns has the
  issue and expiry times as well. The request context holds the latter, or null.
\<close>

record Claims =
  jwt_id :: ObjectId
  jwt_isAdmin :: bool

record Decoded = Claims +
  iat :: nat
  exp :: nat

text \<open>What \<^verbatim>\<open>jwt.verify\<close> throws.\<close>

datatype jwt_error = JsonWebTokenError string | TokenExpiredError | NotBeforeError

subsection \<open>Truthiness\<close>

text \<open>
  \<^verbatim>\<open>if (x)\<close> on an optional string: undefined, null and the empty string are falsy.
\<close>

definition truthy_str :: "string option \<Rightarrow> bool" where
  "truthy_str x = (case x of None \<Rightarrow> False | Some s \<Rightarrow> s \<noteq> [])"

text \<open>\<^verbatim>\<open>if (x)\<close> on an optional finite number: undefined, null and zero are falsy.\<close>

definition truthy_num :: "'a::zero option \<Rightarrow> bool" where
  "truthy_num x = (case x of None \<Rightarrow> False | Some n \<Rightarrow> n \<noteq> 0)"

text \<open>\<^verbatim>\<open>user?.isAdmin\<close> as a condition: false when the context has no user.\<close>

definition user_isAdmin :: "Decoded option \<Rightarrow> bool" where
  "user_isAdmin user = (case user of None \<Rightarrow> False | Some u \<Rightarrow> jwt_isAdmin u)"

subsection \<open>The request context, lines 206-218\<close>

text \<open>\<^verbatim>\<open>s.split(c)\<close> for a one-character separator: never empty, \<^verbatim>\<open>"".split(" ")\<close> is \<^verbatim>\<open>[""]\<close>.\<close>

fun split :: "char \<Rightarrow> string \<Rightarrow> string list" where
  "split c [] = [[]]"
| "split c (x # xs) =
     (if x = c then [] # split c xs
      else (case split c xs of [] \<Rightarrow> [[x]] | w # ws \<Rightarrow> (x # w) # ws))"

text \<open>\<^verbatim>\<open>xs[i]\<close>: undefined out of range.\<close>

definition index :: "'a list \<Rightarrow> nat \<Rightarrow> 'a option" where
  "index xs i = (if i < length xs then Some (xs ! i) else None)"

text \<open>
  Lines 207-208: \<^verbatim>\<open>authHeader = req.headers.authorization || ''\<close> and
  \<^verbatim>\<open>token = authHeader.split(" ")[1]\<close>.
\<close>

definition header_token :: "string option \<Rightarrow> string option" where
  "header_token authorization =
     (let authHeader = (case authorization of None \<Rightarrow> [] | Some h \<Rightarrow> if h \<noteq> [] then h else [])
      in index (split CHR '' '' authHeader) 1)"

text \<open>
  Lines 209-217. \<^verbatim>\<open>jwt.verify\<close> is the parameter \<open>jwt_verify\<close>, given the token, the secret
  and the clock; whatever it throws is caught and only logged.
\<close>

definition request_context ::
  "(string \<Rightarrow> 'k \<Rightarrow> nat \<Rightarrow> jwt_error + Decoded) \<Rightarrow> 'k \<Rightarrow> nat \<Rightarrow> string option \<Rightarrow> Decoded option"
where
  "request_context jwt_verify secret now authorization =
     (case header_token authorization of
        None \<Rightarrow> None
      | Some token \<Rightarrow>
          if token \<noteq> []
          then (case jwt_verify token secret now of
                  Inr user \<Rightarrow> Some user
                | Inl err \<Rightarrow> None)
          else None)"

subsection \<open>The query \<^verbatim>\<open>me\<close>, lines 69-75\<close>

text \<open>
  \<^verbatim>\<open>User.findById\<close>: the document with that identifier, or null. The id comes from a
  verified token, where it is the ObjectId of the account that \<^verbatim>\<open>login\<close> signed.
\<close>

definition User_findById :: "ObjectId \<Rightarrow> Store \<Rightarrow> User option" where
  "User_findById i s = List.find (\<lambda>u. u_id u = i) (User_docs s)"

definition me :: "Decoded option \<Rightarrow> Store \<Rightarrow> error + User option" where
  "me user s =
     (case user of
        None \<Rightarrow> Inl (Error ''Unauthorized'')
      | Some u \<Rightarrow> Inr (User_findById (jwt_id u) s))"

subsection \<open>The query \<^verbatim>\<open>products\<close>, lines 76-104\<close>

text \<open>
  Absent and null arguments are both \<open>None\<close>. \<^verbatim>\<open>GraphQLInt\<close> also has negative values;
  what the store does with a negative \<^verbatim>\<open>skip\<close> or \<^verbatim>\<open>limit\<close> is the driver's business, so
  the two are natural numbers here.
\<close>

record ProductsArgs =
  category :: "string option"
  brand :: "string option"
  minPrice :: "real option"
  maxPrice :: "real option"
  sortBy :: "string option"
  limit :: "nat option"
  skip :: "nat option"

text \<open>The filter document: \<^verbatim>\<open>{ category, brand, price: { $gte, $lte } }\<close>, every key optional.\<close>

record PriceCond =
  gte :: "real option"
  lte :: "real option"

record Filter =
  f_category :: "string option"
  f_brand :: "string option"
  f_price :: "PriceCond option"

text \<open>Lines 88-95.\<close>

definition products_filter :: "ProductsArgs \<Rightarrow> Filter" where
  "products_filter args =
     \<lparr> f_category = (if truthy_str (category args) then category args else None),
       f_brand = (if truthy_str (brand args) then brand args else None),
       f_price =
         (if truthy_num (minPrice args) \<or> truthy_num (maxPrice args)
          then Some \<lparr> gte = (if truthy_num (minPrice args) then minPrice args else None),
                      lte = (if truthy_num (maxPrice args) then maxPrice args else None) \<rparr>
          else None) \<rparr>"

text \<open>
  What the store matches. A string condition matches the documents whose path holds that
  string. \<^verbatim>\<open>$gte\<close> and \<^verbatim>\<open>$lte\<close> match the documents whose price is a number on the right
  side of the bound, so never a document without a price; a condition with neither
  operator is the empty document, which no number equals.
\<close>

definition matches_str :: "string option \<Rightarrow> string option \<Rightarrow> bool" where
  "matches_str cond v = (case cond of None \<Rightarrow> True | Some c \<Rightarrow> v = Some c)"

definition matches_price :: "PriceCond option \<Rightarrow> real option \<Rightarrow> bool" where
  "matches_price cond v =
     (case cond of
        None \<Rightarrow> True
      | Some pc \<Rightarrow>
          (case v of
             None \<Rightarrow> False
           | Some x \<Rightarrow>
               \<not> (gte pc = None \<and> lte pc = None) \<and>
               (case gte pc of None \<Rightarrow> True | Some lo \<Rightarrow> lo \<le> x) \<and>
               (case lte pc of None \<Rightarrow> True | Some hi \<Rightarrow> x \<le> hi)))"

definition matches :: "Filter \<Rightarrow> Product \<Rightarrow> bool" where
  "matches f p \<longleftrightarrow>
     matches_str (f_category f) (p_category p) \<and>
     matches_str (f_brand f) (p_brand p) \<and>
     matches_price (f_price f) (p_price p)"

text \<open>\<^verbatim>\<open>Product.find(filter)\<close>: the matching documents in natural order.\<close>

definition Product_find :: "Filter \<Rightarrow> Store \<Rightarrow> Product list" where
  "Product_find f s = filter (matches f) (Product_docs s)"

text \<open>
  Lines 97-102. The store's \<^verbatim>\<open>sort\<close> is the parameter \<open>store_sort\<close>, given the sort string and
  the documents.
\<close>

definition products ::
  "(string \<Rightarrow> Product list \<Rightarrow> Product list) \<Rightarrow> ProductsArgs \<Rightarrow> Store \<Rightarrow> error + Product list"
where
  "products store_sort args s =
     (let query = Product_find (products_filter args) s;
          query = (case sortBy args of
                     None \<Rightarrow> query
                   | Some k \<Rightarrow> if k \<noteq> [] then store_sort k query else query);
          query = (case skip args of
                     None \<Rightarrow> query
                   | Some n \<Rightarrow> if n \<noteq> 0 then drop n query else query);
          query = (case limit args of
                     None \<Rightarrow> query
                   | Some n \<Rightarrow> if n \<noteq> 0 then take n query else query)
      in Inr query)"

subsection \<open>The mutations \<^verbatim>\<open>register\<close> and \<^verbatim>\<open>login\<close>, lines 112-146\<close>

record RegisterArgs =
  reg_username :: string
  reg_password :: string
  reg_isAdmin :: "bool option"

record LoginArgs =
  login_username :: string
  login_password :: string

text \<open>\<^verbatim>\<open>User.findOne({ username })\<close>: the first document with that username, or null.\<close>

definition User_findOne :: "string \<Rightarrow> Store \<Rightarrow> User option" where
  "User_findOne name s = List.find (\<lambda>u. u_username u = name) (User_docs s)"

text \<open>
  Lines 119-125. \<^verbatim>\<open>bcrypt.hash\<close> is the parameter \<open>bcrypt_hash\<close>, given the password, the
  cost and the salt it draws; \<open>new_id\<close> is the identifier \<^verbatim>\<open>new User(...)\<close> generates.
\<close>

definition register ::
  "(string \<Rightarrow> nat \<Rightarrow> 'r \<Rightarrow> string) \<Rightarrow> 'r \<Rightarrow> ObjectId \<Rightarrow> RegisterArgs \<Rightarrow> Store
     \<Rightarrow> (error + string) \<times> Store"
where
  "register bcrypt_hash salt new_id args s =
     (case User_findOne (reg_username args) s of
        Some existing \<Rightarrow> (Inl (Error ''Username already exists''), s)
      | None \<Rightarrow>
          (let hashed = bcrypt_hash (reg_password args) 10 salt;
               user = \<lparr> u_id = new_id, u_username = reg_username args, u_password = hashed,
                        u_isAdmin = (case reg_isAdmin args of None \<Rightarrow> False | Some b \<Rightarrow> b) \<rparr>
           in (Inr ''User registered'', s\<lparr> User_docs := User_docs s @ [user] \<rparr>)))"

text \<open>
  Lines 133-145. \<^verbatim>\<open>bcrypt.compare\<close> and \<^verbatim>\<open>jwt.sign\<close> are the parameters \<open>bcrypt_compare\<close>
  (plaintext, stored hash) and \<open>jwt_sign\<close> (payload, secret, \<^verbatim>\<open>expiresIn\<close>, clock). The
  secret is the configured \<^verbatim>\<open>JWT_SECRET\<close>.
\<close>

definition login ::
  "(string \<Rightarrow> string \<Rightarrow> bool) \<Rightarrow> (Claims \<Rightarrow> 'k \<Rightarrow> string \<Rightarrow> nat \<Rightarrow> string) \<Rightarrow> 'k \<Rightarrow> nat
     \<Rightarrow> LoginArgs \<Rightarrow> Store \<Rightarrow> (error + string) \<times> Store"
where
  "login bcrypt_compare jwt_sign secret now args s =
     (case User_findOne (login_username args) s of
        None \<Rightarrow> (Inl (Error ''User not found''), s)
      | Some user \<Rightarrow>
          if \<not> bcrypt_compare (login_password args) (u_password user)
          then (Inl (Error ''Invalid credentials''), s)
          else (Inr (jwt_sign \<lparr> jwt_id = u_id user, jwt_isAdmin = u_isAdmin user \<rparr>
                       secret ''1d'' now), s))"

subsection \<open>The product mutations, lines 147-189\<close>

record AddProductArgs =
  add_name :: string
  add_description :: "string option"
  add_price :: real
  add_category :: "string option"
  add_brand :: "string option"
  add_rating :: "real option"

text \<open>
  An argument of \<^verbatim>\<open>updateProduct\<close> is absent (\<open>None\<close>), null (\<open>Some None\<close>) or a value:
  \<^verbatim>\<open>findByIdAndUpdate\<close> sets the paths that are keys of \<^verbatim>\<open>args\<close>, null included, and leaves
  the others. The key \<^verbatim>\<open>id\<close> is not a path of the schema and is dropped.
\<close>

record UpdateProductArgs =
  upd_id :: GraphQLID
  upd_name :: "string option option"
  upd_description :: "string option option"
  upd_price :: "real option option"
  upd_category :: "string option option"
  upd_brand :: "string option option"
  upd_rating :: "real option option"

definition set_path :: "'a option \<Rightarrow> 'a \<Rightarrow> 'a" where
  "set_path arg old = (case arg of None \<Rightarrow> old | Some v \<Rightarrow> v)"

definition apply_update :: "UpdateProductArgs \<Rightarrow> Product \<Rightarrow> Product" where
  "apply_update args p =
     p\<lparr> p_name := set_path (upd_name args) (p_name p),
        p_description := set_path (upd_description args) (p_description p),
        p_price := set_path (upd_price args) (p_price p),
        p_category := set_path (upd_category args) (p_category p),
        p_brand := set_path (upd_brand args) (p_brand p),
        p_rating := set_path (upd_rating args) (p_rating p) \<rparr>"

text \<open>
  What the store does for an update by \<^verbatim>\<open>_id\<close>: the first document with that ObjectId is
  updated and returned as updated; null, and nothing changes, when there is none.
\<close>

fun update_first ::
  "ObjectId \<Rightarrow> UpdateProductArgs \<Rightarrow> Product list \<Rightarrow> Product option \<times> Product list"
where
  "update_first i args [] = (None, [])"
| "update_first i args (p # ps) =
     (if p_id p = i then (Some (apply_update args p), apply_update args p # ps)
      else (case update_first i args ps of (r, ps') \<Rightarrow> (r, p # ps')))"

text \<open>
  What the store does for a delete by \<^verbatim>\<open>_id\<close>: the first document with that ObjectId is
  removed and returned; null, and nothing changes, when there is none.
\<close>

fun delete_first :: "ObjectId \<Rightarrow> Product list \<Rightarrow> Product option \<times> Product list" where
  "delete_first i [] = (None, [])"
| "delete_first i (p # ps) =
     (if p_id p = i then (Some p, ps)
      else (case delete_first i ps of (r, ps') \<Rightarrow> (r, p # ps')))"

text \<open>
  \<^verbatim>\<open>Product.findByIdAndUpdate(id, args, { new: true })\<close> and \<^verbatim>\<open>Product.findByIdAndDelete(id)\<close>.
  The id is the GraphQL \<^verbatim>\<open>ID\<close> as the resolver received it. Mongoose's cast to an ObjectId
  is the parameter \<open>castObjectId\<close>, \<open>None\<close> for a string it rejects: which strings it
  accepts is the library's business (24 hexadecimal digits are always accepted, a short
  string such as \<^verbatim>\<open>"9"\<close> never is). When the cast fails the call throws a CastError and the
  store is not asked.
\<close>

definition findByIdAndUpdate ::
  "(GraphQLID \<Rightarrow> ObjectId option) \<Rightarrow> GraphQLID \<Rightarrow> UpdateProductArgs \<Rightarrow> Product list
     \<Rightarrow> error + Product option \<times> Product list"
where
  "findByIdAndUpdate castObjectId i args docs =
     (case castObjectId i of
        None \<Rightarrow> Inl (CastError i)
      | Some oid \<Rightarrow> Inr (update_first oid args docs))"

definition findByIdAndDelete ::
  "(GraphQLID \<Rightarrow> ObjectId option) \<Rightarrow> GraphQLID \<Rightarrow> Product list
     \<Rightarrow> error + Product option \<times> Product list"
where
  "findByIdAndDelete castObjectId i docs =
     (case castObjectId i of
        None \<Rightarrow> Inl (CastError i)
      | Some oid \<Rightarrow> Inr (delete_first oid docs))"

text \<open>Lines 157-160. \<open>new_id\<close> is the identifier \<^verbatim>\<open>new Product(args)\<close> generates.\<close>

definition addProduct ::
  "ObjectId \<Rightarrow> AddProductArgs \<Rightarrow> Decoded option \<Rightarrow> Store \<Rightarrow> (error + Product) \<times> Store"
where
  "addProduct new_id args user s =
     (if \<not> user_isAdmin user then (Inl (Error ''Unauthorized''), s)
      else
        (let doc = \<lparr> p_id = new_id, p_name = Some (add_name args),
                      p_description = add_description args, p_price = Some (add_price args),
                      p_category = add_category args, p_brand = add_brand args,
                      p_rating = add_rating args \<rparr>
         in (Inr doc, s\<lparr> Product_docs := Product_docs s @ [doc] \<rparr>)))"

text \<open>Lines 173-178.\<close>

definition updateProduct ::
  "(GraphQLID \<Rightarrow> ObjectId option) \<Rightarrow> UpdateProductArgs \<Rightarrow> Decoded option \<Rightarrow> Store
     \<Rightarrow> (error + Product) \<times> Store"
where
  "updateProduct castObjectId args user s =
     (if \<not> user_isAdmin user then (Inl (Error ''Unauthorized''), s)
      else
        (case findByIdAndUpdate castObjectId (upd_id args) args (Product_docs s) of
           Inl err \<Rightarrow> (Inl err, s)
         | Inr (None, docs) \<Rightarrow> (Inl (Error ''Product not found''), s\<lparr> Product_docs := docs \<rparr>)
         | Inr (Some updated, docs) \<Rightarrow> (Inr updated, s\<lparr> Product_docs := docs \<rparr>)))"

text \<open>Lines 183-188.\<close>

definition deleteProduct ::
  "(GraphQLID \<Rightarrow> ObjectId option) \<Rightarrow> GraphQLID \<Rightarrow> Decoded option \<Rightarrow> Store
     \<Rightarrow> (error + string) \<times> Store"
where
  "deleteProduct castObjectId i user s =
     (if \<not> user_isAdmin user then (Inl (Error ''Unauthorized''), s)
      else
        (case findByIdAndDelete castObjectId i (Product_docs s) of
           Inl err \<Rightarrow> (Inl err, s)
         | Inr (None, docs) \<Rightarrow> (Inl (Error ''Product not found''), s\<lparr> Product_docs := docs \<rparr>)
         | Inr (Some result, docs) \<Rightarrow>
             (Inr ''Product deleted successfully'', s\<lparr> Product_docs := docs \<rparr>)))"

subsection \<open>Sample data\<close>

text \<open>
  A small catalog, a few accounts and simple stand-ins for the libraries, for evaluating
  the resolvers on concrete requests.
\<close>

definition widget :: Product where
  "widget = \<lparr> p_id = 1, p_name = Some ''Widget'', p_description = None, p_price = Some 7,
               p_category = Some ''X'', p_brand = Some ''acme'', p_rating = Some 4 \<rparr>"

definition gadget :: Product where
  "gadget = \<lparr> p_id = 2, p_name = Some ''Gadget'', p_description = None, p_price = Some 15,
               p_category = Some [], p_brand = None, p_rating = None \<rparr>"

definition gizmo :: Product where
  "gizmo = \<lparr> p_id = 3, p_name = Some ''Gizmo'', p_description = Some ''small'', p_price = Some 25,
              p_category = Some ''X'', p_brand = Some ''acme'', p_rating = None \<rparr>"

definition sprocket :: Product where
  "sprocket = \<lparr> p_id = 4, p_name = Some ''Sprocket'', p_description = None, p_price = None,
                 p_category = Some ''tools'', p_brand = None, p_rating = Some 2 \<rparr>"

definition flange :: Product where
  "flange = \<lparr> p_id = 5, p_name = Some ''Flange'', p_description = None, p_price = Some (- 3),
               p_category = None, p_brand = Some [], p_rating = None \<rparr>"

definition alice :: User where
  "alice = \<lparr> u_id = 10, u_username = ''alice'', u_password = ''1wp'', u_isAdmin = False \<rparr>"

definition root :: User where
  "root = \<lparr> u_id = 11, u_username = ''admin'', u_password = ''wp'', u_isAdmin = True \<rparr>"


definition shop :: Store where
  "shop = \<lparr> Product_docs = [widget, gadget, gizmo, sprocket, flange], User_docs = [alice, root] \<rparr>"

definition alice_ctx :: Decoded where
  "alice_ctx = \<lparr> jwt_id = 10, jwt_isAdmin = False, iat = 0, exp = 86400 \<rparr>"

definition root_ctx :: Decoded where
  "root_ctx = \<lparr> jwt_id = 11, jwt_isAdmin = True, iat = 0, exp = 86400 \<rparr>"

text \<open>A \<^verbatim>\<open>products\<close> query with no argument.\<close>

definition no_args :: ProductsArgs where
  "no_args = \<lparr> category = None, brand = None, minPrice = None, maxPrice = None,
                sortBy = None, limit = None, skip = None \<rparr>"

text \<open>A sort that leaves the documents in the order it receives them.\<close>

definition natural_order :: "string \<Rightarrow> Product list \<Rightarrow> Product list" where
  "natural_order k docs = docs"

text \<open>A sort that returns the documents in the reverse of the order it receives them.\<close>

definition reverse_order :: "string \<Rightarrow> Product list \<Rightarrow> Product list" where
  "reverse_order k docs = rev docs"

text \<open>
  A hash that stores the reversed password (the salt is not used), and the comparison
  that goes with it.
\<close>

definition rev_hash :: "string \<Rightarrow> nat \<Rightarrow> unit \<Rightarrow> string" where
  "rev_hash plain cost salt = rev plain"

definition rev_compare :: "string \<Rightarrow> string \<Rightarrow> bool" where
  "rev_compare plain hashed \<longleftrightarrow> rev plain = hashed"

text \<open>
  A token format in the clear: a first character for the admin flag, as many characters
  as the identifier counts, a dot, and the secret in the place of the signature. The
  stand-in takes every token as issued at 0 and expired from 86400 on.
\<close>

definition plain_sign :: "Claims \<Rightarrow> string \<Rightarrow> string \<Rightarrow> nat \<Rightarrow> string" where
  "plain_sign c secret expiresIn now =
     (if jwt_isAdmin c then CHR ''A'' else CHR ''U'') # replicate (jwt_id c) CHR ''i'' @
     CHR ''.'' # secret"

definition plain_verify :: "string \<Rightarrow> string \<Rightarrow> nat \<Rightarrow> jwt_error + Decoded" where
  "plain_verify token secret now =
     (case split CHR ''.'' token of
        [x # xs, signature] \<Rightarrow>
          if signature \<noteq> secret then Inl (JsonWebTokenError ''invalid signature'')
          else if 86400 \<le> now then Inl TokenExpiredError
          else Inr \<lparr> jwt_id = length xs, jwt_isAdmin = (x = CHR ''A''), iat = 0, exp = 86400 \<rparr>
      | _ \<Rightarrow> Inl (JsonWebTokenError ''jwt malformed''))"

text \<open>
  A cast that accepts exactly the strings of 24 hexadecimal digits, with the number they
  write as the ObjectId.
\<close>

definition hex_digit :: "char \<Rightarrow> nat option" where
  "hex_digit c =
     (let n = (of_char c :: nat)
      in if 48 \<le> n \<and> n \<le> 57 then Some (n - 48)
         else if 97 \<le> n \<and> n \<le> 102 then Some (n - 87)
         else if 65 \<le> n \<and> n \<le> 70 then Some (n - 55)
         else None)"

fun hex_value :: "nat \<Rightarrow> string \<Rightarrow> nat option" where
  "hex_value acc [] = Some acc"
| "hex_value acc (c # cs) =
     (case hex_digit c of None \<Rightarrow> None | Some d \<Rightarrow> hex_value (16 * acc + d) cs)"

definition hex_ObjectId :: "GraphQLID \<Rightarrow> ObjectId option" where
  "hex_ObjectId i = (if length i = 24 then hex_value 0 i else None)"

text \<open>The id of the widget as a GraphQL \<^verbatim>\<open>ID\<close>, and a well-formed id that no product has.\<close>

definition widget_id :: GraphQLID where
  "widget_id = ''000000000000000000000001''"


text \<open>Arguments for \<^verbatim>\<open>addProduct\<close> and \<^verbatim>\<open>updateProduct\<close>.\<close>

definition bolt_args :: AddProductArgs where
  "bolt_args = \<lparr> add_name = ''Bolt'', add_description = None, add_price = 1,
                  add_category = None, add_brand = None, add_rating = None \<rparr>"

definition reprice_args :: "GraphQLID \<Rightarrow> UpdateProductArgs" where
  "reprice_args i = \<lparr> upd_id = i, upd_name = None, upd_description = None,
                       upd_price = Some (Some 1), upd_category = None, upd_brand = None,
                       upd_rating = None \<rparr>"

section \<open>Properties\<close>

subsection \<open>Helper facts\<close>

lemma user_isAdmin_simps:
  "user_isAdmin None = False"
  "user_isAdmin (Some u) = jwt_isAdmin u"
  by (simp_all add: user_isAdmin_def)

subsection \<open>The admin guard\<close>

text \<open>
  C1. When the request context has no user, or a user whose \<^verbatim>\<open>isAdmin\<close> is false, each of
  \<^verbatim>\<open>addProduct\<close>, \<^verbatim>\<open>updateProduct\<close> and \<^verbatim>\<open>deleteProduct\<close> fails with \<^verbatim>\<open>"Unauthorized"\<close> and
  returns the store it was given: the guard comes before any call on the store.
\<close>

theorem admin_guard_rejects:
  assumes "user = None \<or> (\<exists>u. user = Some u \<and> \<not> jwt_isAdmin u)"
  shows "addProduct new_id a user s = (Inl (Error ''Unauthorized''), s) \<and>
         updateProduct castObjectId b user s = (Inl (Error ''Unauthorized''), s) \<and>
         deleteProduct castObjectId i user s = (Inl (Error ''Unauthorized''), s)"
proof -
  from assms have "\<not> user_isAdmin user"
    by (auto simp: user_isAdmin_simps)
  then show ?thesis
    by (simp add: addProduct_def updateProduct_def deleteProduct_def)
qed

theorem admin_guard_rejects_witness:
  "addProduct 6 bolt_args (Some alice_ctx) shop = (Inl (Error ''Unauthorized''), shop) \<and>
   updateProduct hex_ObjectId (reprice_args widget_id) (Some alice_ctx) shop =
     (Inl (Error ''Unauthorized''), shop) \<and>
   deleteProduct hex_ObjectId widget_id (Some alice_ctx) shop =
     (Inl (Error ''Unauthorized''), shop) \<and>
   addProduct 6 bolt_args None shop = (Inl (Error ''Unauthorized''), shop) \<and>
   updateProduct hex_ObjectId (reprice_args widget_id) None shop =
     (Inl (Error ''Unauthorized''), shop) \<and>
   deleteProduct hex_ObjectId widget_id None shop = (Inl (Error ''Unauthorized''), shop)"
  using admin_guard_rejects [where user = "Some alice_ctx" and new_id = 6 and a = bolt_args
      and s = shop and castObjectId = hex_ObjectId and b = "reprice_args widget_id"
      and i = widget_id]
    admin_guard_rejects [where user = None and new_id = 6 and a = bolt_args
      and s = shop and castObjectId = hex_ObjectId and b = "reprice_args widget_id"
      and i = widget_id]
  by (simp add: alice_ctx_def)

text \<open>
  C2, as the code has it. The admin guard stands before \<^verbatim>\<open>addProduct\<close>, \<^verbatim>\<open>updateProduct\<close>
  and \<^verbatim>\<open>deleteProduct\<close>, where a caller with no identity and an authenticated caller
  who is not an admin get the same result, \<^verbatim>\<open>"Unauthorized"\<close> and the unchanged store.
  \<^verbatim>\<open>me\<close> asks only for an identity: it fails with \<^verbatim>\<open>"Unauthorized"\<close> for a caller with none,
  and for an authenticated caller, admin or not, it returns what \<^verbatim>\<open>User.findById\<close> finds.
\<close>

theorem guard_anonymous_same_as_non_admin:
  "(\<not> jwt_isAdmin u \<longrightarrow>
      addProduct new_id a (Some u) s = addProduct new_id a None s \<and>
      updateProduct castObjectId b (Some u) s = updateProduct castObjectId b None s \<and>
      deleteProduct castObjectId i (Some u) s = deleteProduct castObjectId i None s) \<and>
   addProduct new_id a None s = (Inl (Error ''Unauthorized''), s) \<and>
   updateProduct castObjectId b None s = (Inl (Error ''Unauthorized''), s) \<and>
   deleteProduct castObjectId i None s = (Inl (Error ''Unauthorized''), s) \<and>
   me None s = Inl (Error ''Unauthorized'') \<and>
   me (Some v) s = Inr (User_findById (jwt_id v) s)"
  by (simp add: addProduct_def updateProduct_def deleteProduct_def me_def user_isAdmin_simps)

theorem guard_anonymous_same_as_non_admin_witness:
  "addProduct 6 bolt_args (Some alice_ctx) shop = addProduct 6 bolt_args None shop \<and>
   updateProduct hex_ObjectId (reprice_args widget_id) (Some alice_ctx) shop =
     updateProduct hex_ObjectId (reprice_args widget_id) None shop \<and>
   deleteProduct hex_ObjectId widget_id (Some alice_ctx) shop =
     deleteProduct hex_ObjectId widget_id None shop \<and>
   addProduct 6 bolt_args None shop = (Inl (Error ''Unauthorized''), shop) \<and>
   updateProduct hex_ObjectId (reprice_args widget_id) None shop =
     (Inl (Error ''Unauthorized''), shop) \<and>
   deleteProduct hex_ObjectId widget_id None shop = (Inl (Error ''Unauthorized''), shop) \<and>
   me None shop = Inl (Error ''Unauthorized'') \<and>
   me (Some alice_ctx) shop = Inr (Some alice) \<and>
   me (Some root_ctx) shop = Inr (Some root)"
proof -
  have na: "\<not> jwt_isAdmin alice_ctx"
    by (simp add: alice_ctx_def)
  have alice: "User_findById (jwt_id alice_ctx) shop = Some alice"
    by (simp add: User_findById_def alice_ctx_def shop_def alice_def)
  have root: "User_findById (jwt_id root_ctx) shop = Some root"
    by (simp add: User_findById_def root_ctx_def shop_def alice_def root_def)
  show ?thesis
    using na alice root
      guard_anonymous_same_as_non_admin [where u = alice_ctx and v = alice_ctx and new_id = 6
        and a = bolt_args and s = shop and castObjectId = hex_ObjectId
        and b = "reprice_args widget_id" and i = widget_id]
      guard_anonymous_same_as_non_admin [where u = alice_ctx and v = root_ctx and new_id = 6
        and a = bolt_args and s = shop and castObjectId = hex_ObjectId
        and b = "reprice_args widget_id" and i = widget_id]
    by simp
qed

text \<open>
  The claim as stated fails at \<^verbatim>\<open>me\<close>: alice is authenticated and not an admin, and \<^verbatim>\<open>me\<close>
  returns her account instead of failing.
\<close>

theorem me_admits_non_admin:
  "me (Some alice_ctx) shop = Inr (Some alice) \<and> \<not> jwt_isAdmin alice_ctx"
  by (simp add: me_def User_findById_def alice_ctx_def shop_def alice_def)

subsection \<open>Helper facts about the \<^verbatim>\<open>products\<close> query\<close>

lemmas sample_defs =
  shop_def widget_def gadget_def gizmo_def sprocket_def flange_def alice_def root_def
  no_args_def natural_order_def

lemmas products_eval =
  products_def products_filter_def Product_find_def matches_def matches_str_def
  matches_price_def truthy_str_def truthy_num_def

lemma Product_find_restrict:
  assumes "\<And>p. matches (products_filter a) p \<longleftrightarrow> P p \<and> matches (products_filter a') p"
  shows "Product_find (products_filter a) s =
         Product_find (products_filter a') (s\<lparr>Product_docs := filter P (Product_docs s)\<rparr>)"
proof -
  have "matches (products_filter a) = (\<lambda>p. P p \<and> matches (products_filter a') p)"
    using assms by (intro ext) simp
  then show ?thesis
    by (simp add: Product_find_def conj_commute)
qed

lemma products_cong:
  assumes "Product_find (products_filter a) s = Product_find (products_filter a') s'"
    and "sortBy a = sortBy a'" and "skip a = skip a'" and "limit a = limit a'"
  shows "products store_sort a s = products store_sort a' s'"
  using assms by (simp add: products_def)

lemma products_restrict:
  assumes "\<And>p. matches (products_filter a) p \<longleftrightarrow> P p \<and> matches (products_filter a') p"
    and "sortBy a = sortBy a'" and "skip a = skip a'" and "limit a = limit a'"
  shows "products store_sort a s =
         products store_sort a' (s\<lparr>Product_docs := filter P (Product_docs s)\<rparr>)"
  by (rule products_cong [OF Product_find_restrict]) (use assms in simp_all)

lemma matches_both_bounds:
  assumes "minPrice a = Some lo" "lo \<noteq> 0" "maxPrice a = Some hi" "hi \<noteq> 0"
  shows "matches (products_filter a) p \<longleftrightarrow>
         (case p_price p of None \<Rightarrow> False | Some x \<Rightarrow> lo \<le> x \<and> x \<le> hi) \<and>
         matches (products_filter (a\<lparr>minPrice := None, maxPrice := None\<rparr>)) p"
  using assms
  by (cases "p_price p")
    (auto simp: matches_def products_filter_def matches_price_def truthy_num_def)

lemma matches_lower_bound:
  assumes "minPrice a = Some lo" "lo \<noteq> 0" "\<not> truthy_num (maxPrice a)"
  shows "matches (products_filter a) p \<longleftrightarrow>
         (case p_price p of None \<Rightarrow> False | Some x \<Rightarrow> lo \<le> x) \<and>
         matches (products_filter (a\<lparr>minPrice := None, maxPrice := None\<rparr>)) p"
  using assms
  by (cases "p_price p")
    (auto simp: matches_def products_filter_def matches_price_def truthy_num_def)

lemma matches_upper_bound:
  assumes "\<not> truthy_num (minPrice a)" "maxPrice a = Some hi" "hi \<noteq> 0"
  shows "matches (products_filter a) p \<longleftrightarrow>
         (case p_price p of None \<Rightarrow> False | Some x \<Rightarrow> x \<le> hi) \<and>
         matches (products_filter (a\<lparr>minPrice := None, maxPrice := None\<rparr>)) p"
  using assms
  by (cases "p_price p")
    (auto simp: matches_def products_filter_def matches_price_def truthy_num_def)

lemma Product_find_crossed_bounds:
  assumes "minPrice a = Some lo" "lo \<noteq> 0" "maxPrice a = Some hi" "hi \<noteq> 0" "hi < lo"
  shows "Product_find (products_filter a) s = []"
proof -
  have "\<not> matches (products_filter a) p" for p
    using assms by (cases "p_price p") (simp_all add: matches_both_bounds)
  then show ?thesis
    by (simp add: Product_find_def)
qed

lemma page_3_to_5:
  assumes "5 \<le> length xs"
  shows "take 3 (drop 2 xs) = [xs ! 2, xs ! 3, xs ! 4]"
proof (rule nth_equalityI)
  show "length (take 3 (drop 2 xs)) = length [xs ! 2, xs ! 3, xs ! 4]"
    using assms by simp
next
  fix i
  assume "i < length (take 3 (drop 2 xs))"
  then have "i = 0 \<or> i = 1 \<or> i = 2"
    by auto
  then show "take 3 (drop 2 xs) ! i = [xs ! 2, xs ! 3, xs ! 4] ! i"
    using assms by auto
qed

lemma matches_category_only:
  "X \<noteq> [] \<Longrightarrow> matches (products_filter (no_args\<lparr>category := Some X\<rparr>)) p \<longleftrightarrow> p_category p = Some X"
  by (simp add: products_eval no_args_def)

lemma matches_no_filter:
  "category a = None \<Longrightarrow> brand a = None \<Longrightarrow> minPrice a = None \<Longrightarrow> maxPrice a = None \<Longrightarrow>
   matches (products_filter a) p"
  by (simp add: products_eval)

subsection \<open>Price bounds\<close>

text \<open>
  C3, as the code has it. A bound counts only when it is not zero. When \<^verbatim>\<open>minPrice\<close> and
  \<^verbatim>\<open>maxPrice\<close> are both given and not zero, the query returns what the same query without
  the two bounds returns on the catalog restricted to the products whose price lies in
  the closed interval from \<^verbatim>\<open>minPrice\<close> to \<^verbatim>\<open>maxPrice\<close>; when one is given and not zero and
  the other is absent or zero, the same with that one inclusive bound; and when both are
  not zero and \<^verbatim>\<open>minPrice\<close> is above \<^verbatim>\<open>maxPrice\<close>, the result is the empty list, not a
  failure (the store's sort returning no document when it is given none).
\<close>

theorem price_bounds_nonzero:
  "(minPrice a = Some lo \<and> lo \<noteq> 0 \<and> maxPrice a = Some hi \<and> hi \<noteq> 0 \<longrightarrow>
      products store_sort a s =
      products store_sort (a\<lparr>minPrice := None, maxPrice := None\<rparr>)
        (s\<lparr>Product_docs :=
             filter (\<lambda>p. case p_price p of None \<Rightarrow> False | Some x \<Rightarrow> lo \<le> x \<and> x \<le> hi)
               (Product_docs s)\<rparr>)) \<and>
   (minPrice a = Some lo \<and> lo \<noteq> 0 \<and> \<not> truthy_num (maxPrice a) \<longrightarrow>
      products store_sort a s =
      products store_sort (a\<lparr>minPrice := None, maxPrice := None\<rparr>)
        (s\<lparr>Product_docs :=
             filter (\<lambda>p. case p_price p of None \<Rightarrow> False | Some x \<Rightarrow> lo \<le> x)
               (Product_docs s)\<rparr>)) \<and>
   (\<not> truthy_num (minPrice a) \<and> maxPrice a = Some hi \<and> hi \<noteq> 0 \<longrightarrow>
      products store_sort a s =
      products store_sort (a\<lparr>minPrice := None, maxPrice := None\<rparr>)
        (s\<lparr>Product_docs :=
             filter (\<lambda>p. case p_price p of None \<Rightarrow> False | Some x \<Rightarrow> x \<le> hi)
               (Product_docs s)\<rparr>)) \<and>
   (minPrice a = Some lo \<and> lo \<noteq> 0 \<and> maxPrice a = Some hi \<and> hi \<noteq> 0 \<and> hi < lo \<and>
    (\<forall>k. store_sort k [] = []) \<longrightarrow>
      products store_sort a s = Inr [])"
proof (intro conjI impI)
  assume "minPrice a = Some lo \<and> lo \<noteq> 0 \<and> maxPrice a = Some hi \<and> hi \<noteq> 0"
  then show "products store_sort a s =
      products store_sort (a\<lparr>minPrice := None, maxPrice := None\<rparr>)
        (s\<lparr>Product_docs :=
             filter (\<lambda>p. case p_price p of None \<Rightarrow> False | Some x \<Rightarrow> lo \<le> x \<and> x \<le> hi)
               (Product_docs s)\<rparr>)"
    by (intro products_restrict matches_both_bounds) simp_all
next
  assume "minPrice a = Some lo \<and> lo \<noteq> 0 \<and> \<not> truthy_num (maxPrice a)"
  then show "products store_sort a s =
      products store_sort (a\<lparr>minPrice := None, maxPrice := None\<rparr>)
        (s\<lparr>Product_docs :=
             filter (\<lambda>p. case p_price p of None \<Rightarrow> False | Some x \<Rightarrow> lo \<le> x)
               (Product_docs s)\<rparr>)"
    by (intro products_restrict matches_lower_bound) simp_all
next
  assume "\<not> truthy_num (minPrice a) \<and> maxPrice a = Some hi \<and> hi \<noteq> 0"
  then show "products store_sort a s =
      products store_sort (a\<lparr>minPrice := None, maxPrice := None\<rparr>)
        (s\<lparr>Product_docs :=
             filter (\<lambda>p. case p_price p of None \<Rightarrow> False | Some x \<Rightarrow> x \<le> hi)
               (Product_docs s)\<rparr>)"
    by (intro products_restrict matches_upper_bound) simp_all
next
  assume h: "minPrice a = Some lo \<and> lo \<noteq> 0 \<and> maxPrice a = Some hi \<and> hi \<noteq> 0 \<and> hi < lo \<and>
    (\<forall>k. store_sort k [] = [])"
  then have "Product_find (products_filter a) s = []"
    by (elim conjE) (rule Product_find_crossed_bounds)
  moreover from h have "store_sort k [] = []" for k
    by blast
  ultimately show "products store_sort a s = Inr []"
    by (simp add: products_def split: option.splits)
qed

theorem price_bounds_nonzero_witness:
  "products natural_order (no_args\<lparr>minPrice := Some 10, maxPrice := Some 20\<rparr>) shop = Inr [gadget] \<and>
   products natural_order (no_args\<lparr>minPrice := Some 10\<rparr>) shop = Inr [gadget, gizmo] \<and>
   products natural_order (no_args\<lparr>maxPrice := Some 10\<rparr>) shop = Inr [widget, flange] \<and>
   products natural_order (no_args\<lparr>minPrice := Some 20, maxPrice := Some 10\<rparr>) shop = Inr []"
proof (intro conjI)
  let ?a = "no_args\<lparr>minPrice := Some 10, maxPrice := Some 20\<rparr>"
  have "minPrice ?a = Some 10 \<and> (10::real) \<noteq> 0 \<and> maxPrice ?a = Some 20 \<and> (20::real) \<noteq> 0"
    by simp
  with price_bounds_nonzero [where a = ?a and lo = 10 and hi = 20
      and store_sort = natural_order and s = shop]
  have "products natural_order ?a shop =
        products natural_order (?a\<lparr>minPrice := None, maxPrice := None\<rparr>)
          (shop\<lparr>Product_docs :=
             filter (\<lambda>p. case p_price p of None \<Rightarrow> False | Some x \<Rightarrow> 10 \<le> x \<and> x \<le> 20)
               (Product_docs shop)\<rparr>)"
    by blast
  also have "\<dots> = Inr [gadget]"
    by (simp add: sample_defs products_eval)
  finally show "products natural_order ?a shop = Inr [gadget]" .
next
  let ?a = "no_args\<lparr>minPrice := Some 10\<rparr>"
  have "minPrice ?a = Some 10 \<and> (10::real) \<noteq> 0 \<and> \<not> truthy_num (maxPrice ?a)"
    by (simp add: no_args_def truthy_num_def)
  with price_bounds_nonzero [where a = ?a and lo = 10 and store_sort = natural_order and s = shop]
  have "products natural_order ?a shop =
        products natural_order (?a\<lparr>minPrice := None, maxPrice := None\<rparr>)
          (shop\<lparr>Product_docs :=
             filter (\<lambda>p. case p_price p of None \<Rightarrow> False | Some x \<Rightarrow> 10 \<le> x)
               (Product_docs shop)\<rparr>)"
    by blast
  also have "\<dots> = Inr [gadget, gizmo]"
    by (simp add: sample_defs products_eval)
  finally show "products natural_order ?a shop = Inr [gadget, gizmo]" .
next
  let ?a = "no_args\<lparr>maxPrice := Some 10\<rparr>"
  have "\<not> truthy_num (minPrice ?a) \<and> maxPrice ?a = Some 10 \<and> (10::real) \<noteq> 0"
    by (simp add: no_args_def truthy_num_def)
  with price_bounds_nonzero [where a = ?a and hi = 10 and store_sort = natural_order and s = shop]
  have "products natural_order ?a shop =
        products natural_order (?a\<lparr>minPrice := None, maxPrice := None\<rparr>)
          (shop\<lparr>Product_docs :=
             filter (\<lambda>p. case p_price p of None \<Rightarrow> False | Some x \<Rightarrow> x \<le> 10)
               (Product_docs shop)\<rparr>)"
    by blast
  also have "\<dots> = Inr [widget, flange]"
    by (simp add: sample_defs products_eval)
  finally show "products natural_order ?a shop = Inr [widget, flange]" .
next
  let ?a = "no_args\<lparr>minPrice := Some 20, maxPrice := Some 10\<rparr>"
  have "minPrice ?a = Some 20 \<and> (20::real) \<noteq> 0 \<and> maxPrice ?a = Some 10 \<and> (10::real) \<noteq> 0 \<and>
        (10::real) < 20 \<and> (\<forall>k. natural_order k [] = [])"
    by (simp add: natural_order_def)
  with price_bounds_nonzero [where a = ?a and lo = 20 and hi = 10
      and store_sort = natural_order and s = shop]
  show "products natural_order ?a shop = Inr []"
    by blast
qed

text \<open>
  The claim as stated fails when a bound is zero. With \<^verbatim>\<open>minPrice = 5\<close> above
  \<^verbatim>\<open>maxPrice = 0\<close> the result is not empty: the upper bound is dropped and every product
  priced at 5 or more is returned. With both bounds zero no price filter is built at all,
  and products priced outside the interval from 0 to 0 are returned.
\<close>

theorem zero_price_bound_ignored:
  "products natural_order (no_args\<lparr>minPrice := Some 5, maxPrice := Some 0\<rparr>) shop =
     Inr [widget, gadget, gizmo] \<and>
   products natural_order (no_args\<lparr>minPrice := Some 0, maxPrice := Some 0\<rparr>) shop =
     Inr [widget, gadget, gizmo, sprocket, flange]"
  by (simp add: sample_defs products_eval)

subsection \<open>Category filter and pagination\<close>

text \<open>
  C9. For every catalog, \<^verbatim>\<open>products(category: "X")\<close> returns exactly the stored products
  whose category is \<^verbatim>\<open>"X"\<close>, in natural order, whatever their other fields are; and so it
  is for any category in the place of \<^verbatim>\<open>"X"\<close> that is not the empty string. \<^verbatim>\<open>products(skip: 2, limit: 3)\<close> on a
  catalog of at least five products returns exactly the third, fourth and fifth product:
  of the catalog in natural order when no sort is asked for, and of the sorted catalog
  when \<^verbatim>\<open>sortBy\<close> is given (the store's sort returning as many documents as it is given).
\<close>

theorem category_filter_and_page:
  "products store_sort (no_args\<lparr>category := Some ''X''\<rparr>) s =
     Inr (filter (\<lambda>p. p_category p = Some ''X'') (Product_docs s)) \<and>
   (X \<noteq> [] \<longrightarrow>
      products store_sort (no_args\<lparr>category := Some X\<rparr>) s =
      Inr (filter (\<lambda>p. p_category p = Some X) (Product_docs s))) \<and>
   (5 \<le> length (Product_docs s) \<longrightarrow>
      products store_sort (no_args\<lparr>skip := Some 2, limit := Some 3\<rparr>) s =
      Inr [Product_docs s ! 2, Product_docs s ! 3, Product_docs s ! 4]) \<and>
   (k \<noteq> [] \<and> 5 \<le> length (Product_docs s) \<and>
    length (store_sort k (Product_docs s)) = length (Product_docs s) \<longrightarrow>
      products store_sort (no_args\<lparr>sortBy := Some k, skip := Some 2, limit := Some 3\<rparr>) s =
      Inr [store_sort k (Product_docs s) ! 2, store_sort k (Product_docs s) ! 3,
           store_sort k (Product_docs s) ! 4])"
proof (intro conjI impI)
  have "matches (products_filter (no_args\<lparr>category := Some ''X''\<rparr>)) =
        (\<lambda>p. p_category p = Some ''X'')"
    by (intro ext matches_category_only) simp
  then show "products store_sort (no_args\<lparr>category := Some ''X''\<rparr>) s =
      Inr (filter (\<lambda>p. p_category p = Some ''X'') (Product_docs s))"
    by (simp add: products_def Product_find_def no_args_def)
next
  assume "X \<noteq> []"
  then have "matches (products_filter (no_args\<lparr>category := Some X\<rparr>)) = (\<lambda>p. p_category p = Some X)"
    by (intro ext) (rule matches_category_only)
  then show "products store_sort (no_args\<lparr>category := Some X\<rparr>) s =
      Inr (filter (\<lambda>p. p_category p = Some X) (Product_docs s))"
    by (simp add: products_def Product_find_def no_args_def)
next
  have all: "Product_find (products_filter (no_args\<lparr>skip := Some 2, limit := Some 3\<rparr>)) s = Product_docs s"
    by (simp add: Product_find_def matches_no_filter no_args_def)
  assume "5 \<le> length (Product_docs s)"
  then show "products store_sort (no_args\<lparr>skip := Some 2, limit := Some 3\<rparr>) s =
      Inr [Product_docs s ! 2, Product_docs s ! 3, Product_docs s ! 4]"
    unfolding products_def all by (simp add: no_args_def page_3_to_5)
next
  have all: "Product_find (products_filter (no_args\<lparr>sortBy := Some k, skip := Some 2, limit := Some 3\<rparr>)) s
      = Product_docs s"
    by (simp add: Product_find_def matches_no_filter no_args_def)
  assume "k \<noteq> [] \<and> 5 \<le> length (Product_docs s) \<and>
    length (store_sort k (Product_docs s)) = length (Product_docs s)"
  then have "k \<noteq> []" and "5 \<le> length (store_sort k (Product_docs s))"
    by simp_all
  then show "products store_sort (no_args\<lparr>sortBy := Some k, skip := Some 2, limit := Some 3\<rparr>) s =
      Inr [store_sort k (Product_docs s) ! 2, store_sort k (Product_docs s) ! 3,
           store_sort k (Product_docs s) ! 4]"
    unfolding products_def all by (simp add: no_args_def page_3_to_5)
qed

theorem category_filter_and_page_witness:
  "products natural_order (no_args\<lparr>category := Some ''X''\<rparr>) shop = Inr [widget, gizmo] \<and>
   products natural_order (no_args\<lparr>skip := Some 2, limit := Some 3\<rparr>) shop =
     Inr [gizmo, sprocket, flange] \<and>
   products reverse_order (no_args\<lparr>sortBy := Some ''-_id'', skip := Some 2, limit := Some 3\<rparr>) shop =
     Inr [gizmo, gadget, widget]"
proof (intro conjI)
  have "''X'' \<noteq> []"
    by simp
  with category_filter_and_page [where X = "''X''" and store_sort = natural_order and s = shop]
  have "products natural_order (no_args\<lparr>category := Some ''X''\<rparr>) shop =
        Inr (filter (\<lambda>p. p_category p = Some ''X'') (Product_docs shop))"
    by blast
  also have "\<dots> = Inr [widget, gizmo]"
    by (simp add: sample_defs)
  finally show "products natural_order (no_args\<lparr>category := Some ''X''\<rparr>) shop = Inr [widget, gizmo]" .
next
  have "5 \<le> length (Product_docs shop)"
    by (simp add: shop_def)
  with category_filter_and_page [where store_sort = natural_order and s = shop]
  have "products natural_order (no_args\<lparr>skip := Some 2, limit := Some 3\<rparr>) shop =
        Inr [Product_docs shop ! 2, Product_docs shop ! 3, Product_docs shop ! 4]"
    by blast
  also have "\<dots> = Inr [gizmo, sprocket, flange]"
    by (simp add: shop_def)
  finally show "products natural_order (no_args\<lparr>skip := Some 2, limit := Some 3\<rparr>) shop =
     Inr [gizmo, sprocket, flange]" .
next
  have "''-_id'' \<noteq> [] \<and> 5 \<le> length (Product_docs shop) \<and>
        length (reverse_order ''-_id'' (Product_docs shop)) = length (Product_docs shop)"
    by (simp add: shop_def reverse_order_def)
  with category_filter_and_page [where k = "''-_id''" and store_sort = reverse_order and s = shop]
  have "products reverse_order (no_args\<lparr>sortBy := Some ''-_id'', skip := Some 2, limit := Some 3\<rparr>) shop =
        Inr [reverse_order ''-_id'' (Product_docs shop) ! 2,
             reverse_order ''-_id'' (Product_docs shop) ! 3,
             reverse_order ''-_id'' (Product_docs shop) ! 4]"
    by blast
  also have "\<dots> = Inr [gizmo, gadget, widget]"
    by (simp add: shop_def reverse_order_def)
  finally show "products reverse_order
      (no_args\<lparr>sortBy := Some ''-_id'', skip := Some 2, limit := Some 3\<rparr>) shop =
     Inr [gizmo, gadget, widget]" .
qed

subsection \<open>Truthiness of the arguments\<close>

text \<open>
  C10. \<^verbatim>\<open>products\<close> tests its arguments for truthiness, not for presence: whatever the
  other arguments are, a \<^verbatim>\<open>category\<close> or \<^verbatim>\<open>brand\<close> that is the empty string, and a
  \<^verbatim>\<open>minPrice\<close>, \<^verbatim>\<open>maxPrice\<close>, \<^verbatim>\<open>skip\<close> or \<^verbatim>\<open>limit\<close> that is 0, gives the result of the same
  query with that argument absent.
\<close>

theorem falsy_argument_is_absent:
  "products store_sort (a\<lparr>category := Some []\<rparr>) s = products store_sort (a\<lparr>category := None\<rparr>) s \<and>
   products store_sort (a\<lparr>brand := Some []\<rparr>) s = products store_sort (a\<lparr>brand := None\<rparr>) s \<and>
   products store_sort (a\<lparr>minPrice := Some 0\<rparr>) s = products store_sort (a\<lparr>minPrice := None\<rparr>) s \<and>
   products store_sort (a\<lparr>maxPrice := Some 0\<rparr>) s = products store_sort (a\<lparr>maxPrice := None\<rparr>) s \<and>
   products store_sort (a\<lparr>skip := Some 0\<rparr>) s = products store_sort (a\<lparr>skip := None\<rparr>) s \<and>
   products store_sort (a\<lparr>limit := Some 0\<rparr>) s = products store_sort (a\<lparr>limit := None\<rparr>) s"
  by (simp add: products_def products_filter_def truthy_str_def truthy_num_def)

theorem falsy_argument_is_absent_witness:
  "products natural_order (no_args\<lparr>category := Some []\<rparr>) shop =
     Inr [widget, gadget, gizmo, sprocket, flange] \<and>
   products natural_order (no_args\<lparr>brand := Some []\<rparr>) shop =
     Inr [widget, gadget, gizmo, sprocket, flange] \<and>
   products natural_order (no_args\<lparr>minPrice := Some 0\<rparr>) shop =
     Inr [widget, gadget, gizmo, sprocket, flange] \<and>
   products natural_order (no_args\<lparr>maxPrice := Some 0\<rparr>) shop =
     Inr [widget, gadget, gizmo, sprocket, flange] \<and>
   products natural_order (no_args\<lparr>skip := Some 0\<rparr>) shop =
     Inr [widget, gadget, gizmo, sprocket, flange] \<and>
   products natural_order (no_args\<lparr>limit := Some 0\<rparr>) shop =
     Inr [widget, gadget, gizmo, sprocket, flange]"
proof -
  have absent: "products natural_order no_args shop = Inr [widget, gadget, gizmo, sprocket, flange]"
    by (simp add: sample_defs products_eval)
  have same: "no_args\<lparr>category := None\<rparr> = no_args" "no_args\<lparr>brand := None\<rparr> = no_args"
    "no_args\<lparr>minPrice := None\<rparr> = no_args" "no_args\<lparr>maxPrice := None\<rparr> = no_args"
    "no_args\<lparr>skip := None\<rparr> = no_args" "no_args\<lparr>limit := None\<rparr> = no_args"
    by (simp_all add: no_args_def)
  show ?thesis
    using falsy_argument_is_absent [of natural_order no_args shop]
    by (simp only: same absent simp_thms)
qed

subsection \<open>The request context\<close>

lemma split_no_separator: "c \<notin> set xs \<Longrightarrow> split c xs = [xs]"
  by (induction xs) auto

lemma split_at_separator: "c \<notin> set xs \<Longrightarrow> split c (xs @ c # ys) = xs # split c ys"
  by (induction xs) auto

lemma header_token_Bearer:
  assumes "CHR '' '' \<notin> set t"
  shows "header_token (Some (''Bearer '' @ t)) = Some t"
proof -
  have "split CHR '' '' (''Bearer'' @ CHR '' '' # t) = ''Bearer'' # split CHR '' '' t"
    by (rule split_at_separator) simp
  with assms show ?thesis
    by (simp add: header_token_def index_def split_no_separator)
qed

lemma plain_verify_malformed: "plain_verify ''garbage'' ''s3cret'' 5 = Inl (JsonWebTokenError ''jwt malformed'')"
  by (simp add: plain_verify_def)

lemma plain_verify_expired: "plain_verify ''Uiii.s3cret'' ''s3cret'' 86400 = Inl TokenExpiredError"
  by (simp add: plain_verify_def)

lemma plain_verify_forged: "plain_verify ''Aiii.forged'' ''s3cret'' 5 = Inl (JsonWebTokenError ''invalid signature'')"
  by (simp add: plain_verify_def)

text \<open>
  C4. Whenever \<^verbatim>\<open>jwt.verify\<close> throws on the token taken from the \<^verbatim>\<open>Authorization\<close> header,
  whatever it throws (malformed token, expired token, invalid signature), the request
  context has no user, exactly as for a request without the header. In particular this
  holds for a header \<^verbatim>\<open>Bearer t\<close> with a token \<^verbatim>\<open>t\<close> free of spaces. The context is a value
  in every case: nothing is thrown, and the reason of the rejection is not in it.
\<close>

theorem rejected_token_is_no_identity:
  "(header_token authorization = Some token \<and> jwt_verify token secret now = Inl err \<longrightarrow>
      request_context jwt_verify secret now authorization = None) \<and>
   (CHR '' '' \<notin> set t \<and> jwt_verify t secret now = Inl err \<longrightarrow>
      request_context jwt_verify secret now (Some (''Bearer '' @ t)) = None) \<and>
   request_context jwt_verify secret now None = None"
proof (intro conjI impI)
  assume "header_token authorization = Some token \<and> jwt_verify token secret now = Inl err"
  then show "request_context jwt_verify secret now authorization = None"
    by (simp add: request_context_def)
next
  assume "CHR '' '' \<notin> set t \<and> jwt_verify t secret now = Inl err"
  then show "request_context jwt_verify secret now (Some (''Bearer '' @ t)) = None"
    by (simp add: request_context_def header_token_Bearer del: append.simps)
next
  show "request_context jwt_verify secret now None = None"
    by (simp add: request_context_def header_token_def index_def)
qed

theorem rejected_token_is_no_identity_witness:
  "request_context plain_verify ''s3cret'' 5 (Some ''Bearer garbage'') = None \<and>
   request_context plain_verify ''s3cret'' 86400 (Some ''Bearer Uiii.s3cret'') = None \<and>
   request_context plain_verify ''s3cret'' 5 (Some ''Bearer Aiii.forged'') = None \<and>
   request_context plain_verify ''s3cret'' 5 (Some ''Token Aiii.forged and more'') = None"
proof (intro conjI)
  have "CHR '' '' \<notin> set ''garbage''"
    by simp
  with plain_verify_malformed
    rejected_token_is_no_identity [where t = "''garbage''" and jwt_verify = plain_verify
      and secret = "''s3cret''" and now = 5]
  show "request_context plain_verify ''s3cret'' 5 (Some ''Bearer garbage'') = None"
    by simp
next
  have "CHR '' '' \<notin> set ''Uiii.s3cret''"
    by simp
  with plain_verify_expired
    rejected_token_is_no_identity [where t = "''Uiii.s3cret''" and jwt_verify = plain_verify
      and secret = "''s3cret''" and now = 86400]
  show "request_context plain_verify ''s3cret'' 86400 (Some ''Bearer Uiii.s3cret'') = None"
    by simp
next
  have "CHR '' '' \<notin> set ''Aiii.forged''"
    by simp
  with plain_verify_forged
    rejected_token_is_no_identity [where t = "''Aiii.forged''" and jwt_verify = plain_verify
      and secret = "''s3cret''" and now = 5]
  show "request_context plain_verify ''s3cret'' 5 (Some ''Bearer Aiii.forged'') = None"
    by simp
next
  have "header_token (Some ''Token Aiii.forged and more'') = Some ''Aiii.forged''"
    by (simp add: header_token_def index_def)
  with plain_verify_forged
    rejected_token_is_no_identity [where authorization = "Some ''Token Aiii.forged and more''"
      and token = "''Aiii.forged''" and jwt_verify = plain_verify
      and secret = "''s3cret''" and now = 5]
  show "request_context plain_verify ''s3cret'' 5 (Some ''Token Aiii.forged and more'') = None"
    by simp
qed

subsection \<open>Helper facts about the accounts\<close>


lemma find_distinct_key:
  assumes "distinct (map f xs)" and "x \<in> set xs" and "f x = k"
  shows "List.find (\<lambda>y. f y = k) xs = Some x"
  using assms by (induction xs) auto

lemma User_findOne_None_iff:
  "User_findOne name s = None \<longleftrightarrow> (\<forall>u\<in>set (User_docs s). u_username u \<noteq> name)"
  by (auto simp: User_findOne_def find_None_iff)

lemma User_findOne_distinct:
  assumes "distinct (map u_username (User_docs s))" and "u \<in> set (User_docs s)"
  shows "User_findOne (u_username u) s = Some u"
  unfolding User_findOne_def using assms by (intro find_distinct_key) simp_all

lemma register_keeps_usernames_distinct:
  assumes "distinct (map u_username (User_docs s))"
  shows "distinct (map u_username (User_docs (snd (register bcrypt_hash salt new_id args s))))"
  using assms
  by (auto simp: register_def User_findOne_def find_None_iff split: option.splits)

lemma shop_usernames_distinct: "distinct (map u_username (User_docs shop))"
  by (simp add: shop_def alice_def root_def)


subsection \<open>Registration\<close>

text \<open>
  C6. \<^verbatim>\<open>register\<close> fails with \<^verbatim>\<open>"Username already exists"\<close> (Conflict), the store unchanged,
  when some account has the username. Otherwise it returns the marker
  \<^verbatim>\<open>"User registered"\<close>, a constant and no credential, and the store has one more account,
  appended: the given username, the admin flag given (false when none is), and as
  password what \<^verbatim>\<open>bcrypt.hash\<close> returns for the plaintext with cost 10. The plaintext itself
  is stored nowhere.
\<close>

theorem register_cases:
  "((\<exists>u\<in>set (User_docs s). u_username u = reg_username args) \<longrightarrow>
      register bcrypt_hash salt new_id args s = (Inl (Error ''Username already exists''), s)) \<and>
   ((\<forall>u\<in>set (User_docs s). u_username u \<noteq> reg_username args) \<longrightarrow>
      register bcrypt_hash salt new_id args s =
      (Inr ''User registered'',
       s\<lparr>User_docs := User_docs s @
           [\<lparr>u_id = new_id, u_username = reg_username args,
             u_password = bcrypt_hash (reg_password args) 10 salt,
             u_isAdmin = (reg_isAdmin args = Some True)\<rparr>]\<rparr>))"
proof (intro conjI impI)
  assume "\<exists>u\<in>set (User_docs s). u_username u = reg_username args"
  then have "User_findOne (reg_username args) s \<noteq> None"
    by (simp add: User_findOne_None_iff)
  then show "register bcrypt_hash salt new_id args s = (Inl (Error ''Username already exists''), s)"
    by (auto simp: register_def)
next
  assume "\<forall>u\<in>set (User_docs s). u_username u \<noteq> reg_username args"
  then have "User_findOne (reg_username args) s = None"
    by (simp add: User_findOne_None_iff)
  then show "register bcrypt_hash salt new_id args s =
      (Inr ''User registered'',
       s\<lparr>User_docs := User_docs s @
           [\<lparr>u_id = new_id, u_username = reg_username args,
             u_password = bcrypt_hash (reg_password args) 10 salt,
             u_isAdmin = (reg_isAdmin args = Some True)\<rparr>]\<rparr>)"
    by (cases "reg_isAdmin args") (simp_all add: register_def)
qed

theorem register_cases_witness:
  "register rev_hash () 12 \<lparr>reg_username = ''alice'', reg_password = ''pw2'', reg_isAdmin = Some False\<rparr>
     shop = (Inl (Error ''Username already exists''), shop) \<and>
   register rev_hash () 12 \<lparr>reg_username = ''carol'', reg_password = ''pw'', reg_isAdmin = None\<rparr>
     shop =
     (Inr ''User registered'',
      shop\<lparr>User_docs := [alice, root,
        \<lparr>u_id = 12, u_username = ''carol'', u_password = ''wp'', u_isAdmin = False\<rparr>]\<rparr>)"
proof (intro conjI)
  let ?args = "\<lparr>reg_username = ''alice'', reg_password = ''pw2'', reg_isAdmin = Some False\<rparr>"
  have "\<exists>u\<in>set (User_docs shop). u_username u = reg_username ?args"
    by (simp add: shop_def alice_def)
  with register_cases [where s = shop and args = ?args and bcrypt_hash = rev_hash
      and salt = "()" and new_id = 12]
  show "register rev_hash () 12 ?args shop = (Inl (Error ''Username already exists''), shop)"
    by blast
next
  let ?args = "\<lparr>reg_username = ''carol'', reg_password = ''pw'', reg_isAdmin = None\<rparr>"
  have "\<forall>u\<in>set (User_docs shop). u_username u \<noteq> reg_username ?args"
    by (simp add: shop_def alice_def root_def)
  with register_cases [where s = shop and args = ?args and bcrypt_hash = rev_hash
      and salt = "()" and new_id = 12]
  have "register rev_hash () 12 ?args shop =
      (Inr ''User registered'',
       shop\<lparr>User_docs := User_docs shop @
           [\<lparr>u_id = 12, u_username = reg_username ?args,
             u_password = rev_hash (reg_password ?args) 10 (),
             u_isAdmin = (reg_isAdmin ?args = Some True)\<rparr>]\<rparr>)"
    by blast
  then show "register rev_hash () 12 ?args shop =
     (Inr ''User registered'',
      shop\<lparr>User_docs := [alice, root,
        \<lparr>u_id = 12, u_username = ''carol'', u_password = ''wp'', u_isAdmin = False\<rparr>]\<rparr>)"
    by (simp add: shop_def rev_hash_def)
qed

subsection \<open>Login\<close>

text \<open>
  C7. \<^verbatim>\<open>login\<close> fails with \<^verbatim>\<open>"User not found"\<close> (NotFound) when no account has the username.
  When an account has it (usernames being distinct, as the unique index and \<^verbatim>\<open>register\<close>
  keep them), \<^verbatim>\<open>login\<close> fails with \<^verbatim>\<open>"Invalid credentials"\<close> if \<^verbatim>\<open>bcrypt.compare\<close> rejects the
  password against the stored hash, and otherwise returns the token \<^verbatim>\<open>jwt.sign\<close> issues
  for the account's id and admin flag, with \<^verbatim>\<open>expiresIn: "1d"\<close>. The store it returns is
  the store it was given, in every case.
\<close>

theorem login_cases:
  "((\<forall>u\<in>set (User_docs s). u_username u \<noteq> login_username args) \<longrightarrow>
      login bcrypt_compare jwt_sign secret now args s = (Inl (Error ''User not found''), s)) \<and>
   (distinct (map u_username (User_docs s)) \<and> u \<in> set (User_docs s) \<and>
    u_username u = login_username args \<and>
    \<not> bcrypt_compare (login_password args) (u_password u) \<longrightarrow>
      login bcrypt_compare jwt_sign secret now args s = (Inl (Error ''Invalid credentials''), s)) \<and>
   (distinct (map u_username (User_docs s)) \<and> u \<in> set (User_docs s) \<and>
    u_username u = login_username args \<and>
    bcrypt_compare (login_password args) (u_password u) \<longrightarrow>
      login bcrypt_compare jwt_sign secret now args s =
      (Inr (jwt_sign \<lparr>jwt_id = u_id u, jwt_isAdmin = u_isAdmin u\<rparr> secret ''1d'' now), s)) \<and>
   snd (login bcrypt_compare jwt_sign secret now args s) = s"
proof (intro conjI impI)
  show "snd (login bcrypt_compare jwt_sign secret now args s) = s"
    by (simp add: login_def split: option.splits)
next
  assume "\<forall>u\<in>set (User_docs s). u_username u \<noteq> login_username args"
  then have "User_findOne (login_username args) s = None"
    by (simp add: User_findOne_None_iff)
  then show "login bcrypt_compare jwt_sign secret now args s = (Inl (Error ''User not found''), s)"
    by (simp add: login_def)
next
  assume h: "distinct (map u_username (User_docs s)) \<and> u \<in> set (User_docs s) \<and>
    u_username u = login_username args \<and>
    \<not> bcrypt_compare (login_password args) (u_password u)"
  then have "User_findOne (login_username args) s = Some u"
    using User_findOne_distinct [of s u] by simp
  with h show "login bcrypt_compare jwt_sign secret now args s = (Inl (Error ''Invalid credentials''), s)"
    by (simp add: login_def)
next
  assume h: "distinct (map u_username (User_docs s)) \<and> u \<in> set (User_docs s) \<and>
    u_username u = login_username args \<and>
    bcrypt_compare (login_password args) (u_password u)"
  then have "User_findOne (login_username args) s = Some u"
    using User_findOne_distinct [of s u] by simp
  with h show "login bcrypt_compare jwt_sign secret now args s =
      (Inr (jwt_sign \<lparr>jwt_id = u_id u, jwt_isAdmin = u_isAdmin u\<rparr> secret ''1d'' now), s)"
    by (simp add: login_def)
qed

theorem login_cases_witness:
  "login rev_compare plain_sign ''s3cret'' 0
     \<lparr>login_username = ''carol'', login_password = ''pw''\<rparr> shop =
     (Inl (Error ''User not found''), shop) \<and>
   login rev_compare plain_sign ''s3cret'' 0
     \<lparr>login_username = ''alice'', login_password = ''pw''\<rparr> shop =
     (Inl (Error ''Invalid credentials''), shop) \<and>
   login rev_compare plain_sign ''s3cret'' 0
     \<lparr>login_username = ''alice'', login_password = ''pw1''\<rparr> shop =
     (Inr ''Uiiiiiiiiii.s3cret'', shop)"
proof (intro conjI)
  let ?args = "\<lparr>login_username = ''carol'', login_password = ''pw''\<rparr>"
  have "\<forall>u\<in>set (User_docs shop). u_username u \<noteq> login_username ?args"
    by (simp add: shop_def alice_def root_def)
  with login_cases [where s = shop and args = ?args and bcrypt_compare = rev_compare
      and jwt_sign = plain_sign and secret = "''s3cret''" and now = 0]
  show "login rev_compare plain_sign ''s3cret'' 0 ?args shop = (Inl (Error ''User not found''), shop)"
    by blast
next
  let ?args = "\<lparr>login_username = ''alice'', login_password = ''pw''\<rparr>"
  have "distinct (map u_username (User_docs shop)) \<and> alice \<in> set (User_docs shop) \<and>
        u_username alice = login_username ?args \<and>
        \<not> rev_compare (login_password ?args) (u_password alice)"
    by (simp add: shop_usernames_distinct) (simp add: shop_def alice_def rev_compare_def)
  with login_cases [where s = shop and args = ?args and u = alice and bcrypt_compare = rev_compare
      and jwt_sign = plain_sign and secret = "''s3cret''" and now = 0]
  show "login rev_compare plain_sign ''s3cret'' 0 ?args shop =
      (Inl (Error ''Invalid credentials''), shop)"
    by blast
next
  let ?args = "\<lparr>login_username = ''alice'', login_password = ''pw1''\<rparr>"
  have "distinct (map u_username (User_docs shop)) \<and> alice \<in> set (User_docs shop) \<and>
        u_username alice = login_username ?args \<and>
        rev_compare (login_password ?args) (u_password alice)"
    by (simp add: shop_usernames_distinct) (simp add: shop_def alice_def rev_compare_def)
  with login_cases [where s = shop and args = ?args and u = alice and bcrypt_compare = rev_compare
      and jwt_sign = plain_sign and secret = "''s3cret''" and now = 0]
  have "login rev_compare plain_sign ''s3cret'' 0 ?args shop =
      (Inr (plain_sign \<lparr>jwt_id = u_id alice, jwt_isAdmin = u_isAdmin alice\<rparr> ''s3cret'' ''1d'' 0), shop)"
    by blast
  then show "login rev_compare plain_sign ''s3cret'' 0 ?args shop = (Inr ''Uiiiiiiiiii.s3cret'', shop)"
    by (simp add: alice_def plain_sign_def eval_nat_numeral)
qed



subsection \<open>Updating and deleting a product that is not there\<close>







end
